theory Spec2Isabelle
  imports Complex_Main
begin

section \<open>JavaScript numbers\<close>

text \<open>
  A TypeScript \<^verbatim>\<open>number\<close> is an IEEE 754 double. \<open>Fin r\<close> is the finite double whose
  value is the rational \<open>r\<close> (\<open>Fin 0\<close> is the positive zero), \<open>NegZero\<close> the negative
  zero, and \<open>PInf\<close>, \<open>NInf\<close> and \<open>NaN\<close> the two infinities and the value that is not a
  number. Each arithmetic operator returns the exact result rounded to the nearest double,
  a tie going to the one with the even significand; a result too large becomes an
  infinity, one too small a zero of the same sign; and division by zero is a value, not
  HOL's \<open>x / 0 = 0\<close>.
\<close>

datatype jsnum = Fin rat | NegZero | PInf | NInf | NaN

fun finite_value :: "jsnum \<Rightarrow> rat option" where
  "finite_value (Fin a) = Some a"
| "finite_value NegZero = Some 0"
| "finite_value PInf = None"
| "finite_value NInf = None"
| "finite_value NaN = None"

fun sign_bit :: "jsnum \<Rightarrow> bool" where
  "sign_bit (Fin a) = (a < 0)"
| "sign_bit NegZero = True"
| "sign_bit PInf = False"
| "sign_bit NInf = True"
| "sign_bit NaN = False"

definition zero_of :: "bool \<Rightarrow> jsnum" where
  "zero_of negative = (if negative then NegZero else Fin 0)"

definition inf_of :: "bool \<Rightarrow> jsnum" where
  "inf_of negative = (if negative then NInf else PInf)"

definition pow2 :: "int \<Rightarrow> rat" where
  "pow2 k = (if 0 \<le> k then 2 ^ nat k else 1 / 2 ^ nat (- k))"

text \<open>The number of binary digits of a positive integer.\<close>

function bit_length :: "int \<Rightarrow> int" where
  "bit_length n = (if n \<le> 0 then 0 else 1 + bit_length (n div 2))"
  by pat_completeness auto
termination
  by (relation "measure nat") auto

text \<open>
  The binary exponent of a positive rational \<open>a\<close>: the \<open>e\<close> with
  \<open>2^e \<le> a < 2^(e+1)\<close>. The difference of the bit lengths of numerator and
  denominator is that exponent or one more.
\<close>

definition exponent_of :: "rat \<Rightarrow> int" where
  "exponent_of a =
     (let (p, q) = quotient_of a;
          d = bit_length p - bit_length q
      in if pow2 d \<le> a then d else d - 1)"

definition round_half_even :: "rat \<Rightarrow> int" where
  "round_half_even v =
     (let n = \<lfloor>v\<rfloor>;
          f = v - of_int n
      in if f < 1 / 2 then n
         else if 1 / 2 < f then n + 1
         else if even n then n else n + 1)"

text \<open>
  Rounding an exact result to a double. A double has 53 significant bits, so the doubles
  around a value of exponent \<open>e\<close> are \<open>2^(e - 52)\<close> apart, and the value is rounded to
  a multiple \<open>n\<close> of that distance. Below \<open>2^(-1022)\<close> the doubles stay \<open>2^(-1074)\<close>
  apart (the subnormal range). The largest double is just below \<open>2^1024\<close>: a value whose
  exponent is above 1023, or is 1023 with \<open>n\<close> rounded up to \<open>2^53\<close>, overflows.
\<close>

definition round_to_double :: "rat \<Rightarrow> jsnum" where
  "round_to_double v =
     (if v = 0 then Fin 0
      else
        let a = \<bar>v\<bar>;
            e = max (exponent_of a) (- 1022);
            ulp = pow2 (e - 52);
            n = round_half_even (a / ulp)
        in if 1023 < e \<or> (e = 1023 \<and> n = 2 ^ 53) then inf_of (v < 0)
           else if n = 0 then zero_of (v < 0)
           else Fin (if v < 0 then - (of_int n * ulp) else of_int n * ulp))"

fun js_neg :: "jsnum \<Rightarrow> jsnum" where
  "js_neg (Fin a) = (if a = 0 then NegZero else Fin (- a))"
| "js_neg NegZero = Fin 0"
| "js_neg PInf = NInf"
| "js_neg NInf = PInf"
| "js_neg NaN = NaN"

text \<open>
  \<^verbatim>\<open>a + b\<close>. A sum that is exactly zero is the positive zero, unless both operands are
  the negative zero; opposite infinities give \<open>NaN\<close>.
\<close>

definition js_add :: "jsnum \<Rightarrow> jsnum \<Rightarrow> jsnum" where
  "js_add a b =
     (if a = NaN \<or> b = NaN then NaN
      else
        case (finite_value a, finite_value b) of
          (Some v, Some w) \<Rightarrow>
            (if v + w = 0 then zero_of (a = NegZero \<and> b = NegZero)
             else round_to_double (v + w))
        | (Some v, None) \<Rightarrow> b
        | (None, Some w) \<Rightarrow> a
        | (None, None) \<Rightarrow> (if a = b then a else NaN))"

text \<open>\<^verbatim>\<open>a - b\<close> is \<^verbatim>\<open>a + (-b)\<close>.\<close>

definition js_sub :: "jsnum \<Rightarrow> jsnum \<Rightarrow> jsnum" where
  "js_sub a b = js_add a (js_neg b)"

text \<open>
  \<^verbatim>\<open>a * b\<close>. The sign of the result is negative when exactly one operand is; zero times
  an infinity is \<open>NaN\<close>.
\<close>

definition js_mul :: "jsnum \<Rightarrow> jsnum \<Rightarrow> jsnum" where
  "js_mul a b =
     (if a = NaN \<or> b = NaN then NaN
      else
        case (finite_value a, finite_value b) of
          (Some v, Some w) \<Rightarrow>
            (if v * w = 0 then zero_of (sign_bit a \<noteq> sign_bit b)
             else round_to_double (v * w))
        | (Some v, None) \<Rightarrow> (if v = 0 then NaN else inf_of (sign_bit a \<noteq> sign_bit b))
        | (None, Some w) \<Rightarrow> (if w = 0 then NaN else inf_of (sign_bit a \<noteq> sign_bit b))
        | (None, None) \<Rightarrow> inf_of (sign_bit a \<noteq> sign_bit b))"

text \<open>
  \<^verbatim>\<open>a / b\<close>. A non-zero number over a zero is an infinity, and a finite number over an
  infinity a zero, each with the sign of the operands' signs combined; zero over zero and
  infinity over infinity are \<open>NaN\<close>.
\<close>

definition js_div :: "jsnum \<Rightarrow> jsnum \<Rightarrow> jsnum" where
  "js_div a b =
     (if a = NaN \<or> b = NaN then NaN
      else
        case (finite_value a, finite_value b) of
          (Some v, Some w) \<Rightarrow>
            (if w = 0 then (if v = 0 then NaN else inf_of (sign_bit a \<noteq> sign_bit b))
             else if v = 0 then zero_of (sign_bit a \<noteq> sign_bit b)
             else round_to_double (v / w))
        | (Some v, None) \<Rightarrow> zero_of (sign_bit a \<noteq> sign_bit b)
        | (None, Some w) \<Rightarrow> inf_of (sign_bit a \<noteq> sign_bit b)
        | (None, None) \<Rightarrow> NaN)"

text \<open>The comparison \<^verbatim>\<open>a >= b\<close>: false as soon as one side is \<open>NaN\<close>.\<close>

definition js_ge :: "jsnum \<Rightarrow> jsnum \<Rightarrow> bool" where
  "js_ge a b =
     (a \<noteq> NaN \<and> b \<noteq> NaN \<and>
      (a = PInf \<or> b = NInf \<or>
       (case (finite_value a, finite_value b) of
          (Some v, Some w) \<Rightarrow> w \<le> v
        | _ \<Rightarrow> False)))"

text \<open>
  Strict equality \<^verbatim>\<open>a === b\<close> on numbers: \<open>NaN\<close> equals nothing, the two zeros are
  equal.
\<close>

definition js_eq :: "jsnum \<Rightarrow> jsnum \<Rightarrow> bool" where
  "js_eq a b =
     (a \<noteq> NaN \<and> b \<noteq> NaN \<and>
      (case (finite_value a, finite_value b) of
         (Some v, Some w) \<Rightarrow> v = w
       | (None, None) \<Rightarrow> a = b
       | _ \<Rightarrow> False))"

text \<open>
  \<^verbatim>\<open>Math.round\<close>: the nearest integer, a tie going up; the result is exact. A negative
  number that rounds to zero gives the negative zero.
\<close>

fun Math_round :: "jsnum \<Rightarrow> jsnum" where
  "Math_round (Fin a) =
     (if \<lfloor>a + 1 / 2\<rfloor> = 0 \<and> a < 0 then NegZero else Fin (of_int \<lfloor>a + 1 / 2\<rfloor>))"
| "Math_round NegZero = NegZero"
| "Math_round PInf = PInf"
| "Math_round NInf = NInf"
| "Math_round NaN = NaN"

text \<open>A number used as a condition is false when it is a zero or \<open>NaN\<close>.\<close>

definition truthy :: "jsnum \<Rightarrow> bool" where
  "truthy n = (n \<noteq> Fin 0 \<and> n \<noteq> NegZero \<and> n \<noteq> NaN)"

section \<open>Geometry: points, sizes, rectangles, positions\<close>

text \<open>
  The classes \<^verbatim>\<open>Point\<close>, \<^verbatim>\<open>Size\<close>, \<^verbatim>\<open>Rect\<close>, \<^verbatim>\<open>Position\<close> and
  \<^verbatim>\<open>ScreenInfo\<close> are imported by \<^verbatim>\<open>WdaProxyClient.ts\<close>; their fields are the ones
  the client reads.
\<close>

record Point =
  point_x :: jsnum
  point_y :: jsnum

record Size =
  width :: jsnum
  height :: jsnum

record Rect =
  rect_left :: jsnum
  rect_top :: jsnum
  rect_right :: jsnum
  rect_bottom :: jsnum

record Position =
  point :: Point
  screenSize :: Size

record ScreenInfo =
  contentRect :: Rect
  videoSize :: Size
  deviceRotation :: int

text \<open>
  Modelled from the spec: \<^verbatim>\<open>Rect.getWidth\<close> and \<^verbatim>\<open>Rect.getHeight\<close> are declared
  outside the client's file; the spec calls them the horizontal extent (right - left) and
  the vertical extent (bottom - top) of the content rectangle.
\<close>

definition Rect_getWidth :: "Rect \<Rightarrow> jsnum" where
  "Rect_getWidth r = js_sub (rect_right r) (rect_left r)"

definition Rect_getHeight :: "Rect \<Rightarrow> jsnum" where
  "Rect_getHeight r = js_sub (rect_bottom r) (rect_top r)"

text \<open>
  Modelled from the spec: \<^verbatim>\<open>Size.equals\<close> is declared outside the client's file; the
  spec asks that the two sizes be exactly equal, that is in width and in height.
\<close>

definition Size_equals :: "Size \<Rightarrow> Size \<Rightarrow> bool" where
  "Size_equals a b = (js_eq (width a) (width b) \<and> js_eq (height a) (height b))"

text \<open>
  \<^verbatim>\<open>Position.rotate\<close> is declared outside the client's file and the spec gives no
  formula for it, so it is a parameter \<open>rot\<close> of the transform: every result below
  holds for each function put in its place.
\<close>

type_synonym rotate_fn = "Position \<Rightarrow> int \<Rightarrow> Position"

definition calculatePhysicalPoint ::
  "rotate_fn \<Rightarrow> ScreenInfo \<Rightarrow> jsnum \<Rightarrow> Position \<Rightarrow> Point option" where
  "calculatePhysicalPoint rot screenInfo screenWidth position =
     (let shortSide =
            (if js_ge (width (videoSize screenInfo)) (height (videoSize screenInfo))
             then js_sub (rect_bottom (contentRect screenInfo)) (rect_top (contentRect screenInfo))
             else js_sub (rect_right (contentRect screenInfo)) (rect_left (contentRect screenInfo)));
          scale = js_div shortSide screenWidth;
          devicePosition = rot position (deviceRotation screenInfo)
      in if \<not> Size_equals (videoSize screenInfo) (screenSize devicePosition) then None
         else
           let convertedX =
                 js_add (rect_left (contentRect screenInfo))
                   (js_div (js_mul (point_x (point devicePosition))
                                   (Rect_getWidth (contentRect screenInfo)))
                           (width (videoSize screenInfo)));
               convertedY =
                 js_add (rect_top (contentRect screenInfo))
                   (js_div (js_mul (point_y (point devicePosition))
                                   (Rect_getHeight (contentRect screenInfo)))
                           (height (videoSize screenInfo)));
               scaledX = Math_round (js_div convertedX scale);
               scaledY = Math_round (js_div convertedY scale)
           in Some \<lparr>point_x = scaledX, point_y = scaledY\<rparr>)"

section \<open>Messages and promises\<close>

text \<open>
  The enumerations \<^verbatim>\<open>ControlCenterCommand\<close> and \<^verbatim>\<open>WDAMethod\<close> are declared outside
  the client's file; the members below are the ones it names, and \<open>OtherCommand\<close> stands
  for every other value of a frame's \<^verbatim>\<open>type\<close> field.
\<close>

datatype ControlCenterCommand = RUN_WDA | REQUEST_WDA | OtherCommand string

datatype WDAMethod = GET_SCREEN_WIDTH | PRESS_BUTTON | CLICK | SCROLL

text \<open>
  The \<^verbatim>\<open>args\<close> of a device request: absent, \<^verbatim>\<open>{name}\<close>, \<^verbatim>\<open>{x, y}\<close>,
  \<^verbatim>\<open>{from, to}\<close>, or anything else a caller of \<^verbatim>\<open>requestWebDriverAgent\<close> passes.
\<close>

datatype args =
    Args_undefined
  | Args_name string
  | Args_xy Point
  | Args_from_to Point Point
  | Args_other string

text \<open>
  The \<^verbatim>\<open>data\<close> of a message. Outbound it is \<^verbatim>\<open>{udid}\<close> or \<^verbatim>\<open>{method, args}\<close>.
  Of an inbound reply the client reads two things only: whether \<^verbatim>\<open>data.success\<close> is
  true, and \<^verbatim>\<open>data.response\<close> when it is a number (\<open>None\<close> otherwise).
  \<open>Data_absent\<close> is a frame with no \<^verbatim>\<open>data\<close> object.
\<close>

datatype data =
    Data_udid string
  | Data_method_args WDAMethod args
  | Data_reply bool "jsnum option"
  | Data_absent

record Message =
  msg_id :: int
  msg_type :: ControlCenterCommand
  msg_data :: data

text \<open>The text of an inbound frame, as \<^verbatim>\<open>JSON.parse\<close> leaves it.\<close>

datatype inbound = Unparseable | Parsed Message

datatype error =
    No_session
  | Invalid_response
  | Unsupported_message
  | Parse_error
  | Type_error

text \<open>
  The promise an asynchronous method hands to its caller: fulfilled, rejected with the
  error thrown, or pending on the response to the request with the given identifier.
\<close>

datatype 'a promise = Fulfilled 'a | Rejected error | Pending int

fun map_promise :: "('a \<Rightarrow> 'b) \<Rightarrow> 'a promise \<Rightarrow> 'b promise" where
  "map_promise f (Fulfilled a) = Fulfilled (f a)"
| "map_promise f (Rejected e) = Rejected e"
| "map_promise f (Pending i) = Pending i"

text \<open>
  The \<^verbatim>\<open>resolve\<close> callback stored in \<^verbatim>\<open>wait\<close> resumes whoever awaits the promise
  of \<^verbatim>\<open>sendMessage\<close>. The four places of the client that do are told apart here: the
  caller outside the client (\<^verbatim>\<open>requestWebDriverAgent\<close> and \<^verbatim>\<open>sendMessage\<close> return
  the promise as it is), \<^verbatim>\<open>runWebDriverAgent\<close>, and \<^verbatim>\<open>getScreenWidth\<close> awaited by
  \<^verbatim>\<open>performClick\<close> or by \<^verbatim>\<open>performScroll\<close>.
\<close>

datatype cont =
    Caller
  | In_runWebDriverAgent
  | In_performClick Position
  | In_performScroll Position Position

section \<open>The client and its transport\<close>

datatype readyState = CONNECTING | OPEN | CLOSING | CLOSED

text \<open>What the client does to the world outside it, in the order it does it.\<close>

datatype effect =
    Emit_connected bool
  | Emit_wda_status Message
  | Console_log_closed string
  | Console_error error
  | Console_log_data inbound
  | SetTimeout_openNewConnection
  | Ws_send string
  | Ws_close
  | New_connection

text \<open>
  The private fields of \<^verbatim>\<open>WdaProxyClient\<close>, then what it shares with the runtime:
  \<open>ws\<close> is the \<^verbatim>\<open>readyState\<close> of \<^verbatim>\<open>this.ws\<close> (\<open>None\<close> while there is no
  socket), \<open>timers\<close> counts the reconnect timers set and not yet fired, \<open>resolved\<close>
  holds the promises resolved by \<^verbatim>\<open>onSocketMessage\<close> whose awaiting code has not run
  yet, and \<open>effects\<close> is the record of what was done.
\<close>

record client =
  screenInfo :: "ScreenInfo option"
  screenWidth :: jsnum
  udid :: string
  stopped :: bool
  commands :: "string list"
  hasSession :: bool
  messageId :: int
  wait :: "int \<rightharpoonup> cont"
  ws :: "readyState option"
  timers :: nat
  resolved :: "(cont \<times> Message) list"
  effects :: "effect list"

text \<open>
  \<^verbatim>\<open>Position.rotate\<close> and \<^verbatim>\<open>JSON.stringify\<close> are not code of the client: they are
  parameters of the model, passed together.
\<close>

record externals =
  Position_rotate :: rotate_fn
  JSON_stringify :: "Message \<Rightarrow> string"

definition perform :: "effect \<Rightarrow> client \<Rightarrow> client" where
  "perform e s = s\<lparr>effects := effects s @ [e]\<rparr>"

text \<open>
  Modelled from the spec: \<^verbatim>\<open>openNewConnection\<close> is inherited from \<^verbatim>\<open>ManagerClient\<close>,
  which is not among the sources; by the spec it starts a new connection attempt.
\<close>

definition openNewConnection :: "client \<Rightarrow> client" where
  "openNewConnection s = (perform New_connection s)\<lparr>ws := Some CONNECTING\<rparr>"

text \<open>The constructor: the field initialisers, then \<^verbatim>\<open>openNewConnection\<close>.\<close>

definition new_client :: "string \<Rightarrow> client" where
  "new_client params_udid =
     openNewConnection
       \<lparr>screenInfo = None, screenWidth = Fin 0, udid = params_udid, stopped = False,
        commands = [], hasSession = False, messageId = 0, wait = Map.empty,
        ws = None, timers = 0, resolved = [], effects = []\<rparr>"

definition onSocketClose :: "string \<Rightarrow> client \<Rightarrow> client" where
  "onSocketClose reason s =
     (let s1 = perform (Console_log_closed reason) (perform (Emit_connected False) s)
      in if \<not> stopped s1
         then (perform SetTimeout_openNewConnection s1)\<lparr>timers := timers s1 + 1\<rparr>
         else s1)"

definition onSocketMessage :: "inbound \<Rightarrow> client \<Rightarrow> client" where
  "onSocketMessage e s =
     (case e of
        Unparseable \<Rightarrow> perform (Console_log_data e) (perform (Console_error Parse_error) s)
      | Parsed json \<Rightarrow>
          (case wait s (msg_id json) of
             Some p \<Rightarrow>
               s\<lparr>wait := (wait s)(msg_id json := None), resolved := resolved s @ [(p, json)]\<rparr>
           | None \<Rightarrow>
               (case msg_type json of
                  RUN_WDA \<Rightarrow> perform (Emit_wda_status json) s
                | _ \<Rightarrow>
                    perform (Console_log_data e)
                      (perform (Console_error Unsupported_message) s))))"

definition sendCommand :: "string \<Rightarrow> client \<Rightarrow> client" where
  "sendCommand str s =
     (if ws s = Some OPEN then perform (Ws_send str) s
      else s\<lparr>commands := commands s @ [str]\<rparr>)"

text \<open>
  The loop of \<^verbatim>\<open>onSocketOpen\<close>. It takes the head of the queue and hands it to
  \<^verbatim>\<open>sendCommand\<close>, which puts it back at the end when the socket is not open: the loop
  need not end, and \<open>None\<close> is the run that does not.
\<close>

partial_function (option) flush_commands :: "client \<Rightarrow> client option" where
  "flush_commands s =
     (case commands s of
        [] \<Rightarrow> Some s
      | str # rest \<Rightarrow>
          (if str \<noteq> [] then flush_commands (sendCommand str (s\<lparr>commands := rest\<rparr>))
           else flush_commands (s\<lparr>commands := rest\<rparr>)))"

definition onSocketOpen :: "client \<Rightarrow> client option" where
  "onSocketOpen s = flush_commands (perform (Emit_connected True) s)"

definition getNextId :: "client \<Rightarrow> int \<times> client" where
  "getNextId s = (messageId s + 1, s\<lparr>messageId := messageId s + 1\<rparr>)"

text \<open>
  \<^verbatim>\<open>sendMessage\<close> sends or queues the frame, then registers the pending entry; \<open>k\<close> says
  who awaits the promise it returns.
\<close>

definition sendMessage :: "externals \<Rightarrow> cont \<Rightarrow> Message \<Rightarrow> client \<Rightarrow> Message promise \<times> client" where
  "sendMessage E k message s =
     (let s1 = sendCommand (JSON_stringify E message) s
      in (Pending (msg_id message), s1\<lparr>wait := (wait s1)(msg_id message \<mapsto> k)\<rparr>))"

definition setScreenInfo :: "ScreenInfo \<Rightarrow> client \<Rightarrow> client" where
  "setScreenInfo si s = s\<lparr>screenInfo := Some si\<rparr>"

definition getScreenInfo :: "client \<Rightarrow> ScreenInfo option" where
  "getScreenInfo s = screenInfo s"

definition requestWebDriverAgent ::
  "externals \<Rightarrow> cont \<Rightarrow> WDAMethod \<Rightarrow> args \<Rightarrow> client \<Rightarrow> Message promise \<times> client" where
  "requestWebDriverAgent E k method a s =
     (if \<not> hasSession s then (Rejected No_session, s)
      else
        let (i, s1) = getNextId s;
            message = \<lparr>msg_id = i, msg_type = REQUEST_WDA, msg_data = Data_method_args method a\<rparr>
        in sendMessage E k message s1)"

definition runWebDriverAgent :: "externals \<Rightarrow> client \<Rightarrow> Message promise \<times> client" where
  "runWebDriverAgent E s =
     (let (i, s1) = getNextId s;
          message = \<lparr>msg_id = i, msg_type = RUN_WDA, msg_data = Data_udid (udid s1)\<rparr>
      in sendMessage E In_runWebDriverAgent message s1)"

text \<open>\<^verbatim>\<open>runWebDriverAgent\<close> after its \<^verbatim>\<open>await\<close>, once the response is there.\<close>

definition runWebDriverAgent_resume :: "Message \<Rightarrow> client \<Rightarrow> Message promise \<times> client" where
  "runWebDriverAgent_resume response s = (Fulfilled response, s\<lparr>hasSession := True\<rparr>)"

text \<open>
  \<^verbatim>\<open>getScreenWidth\<close> up to its \<^verbatim>\<open>await\<close>, and after it. A message with no
  \<^verbatim>\<open>data\<close> makes the property access throw.
\<close>

definition getScreenWidth_resume :: "Message \<Rightarrow> client \<Rightarrow> jsnum promise \<times> client" where
  "getScreenWidth_resume temp s =
     (case msg_data temp of
        Data_absent \<Rightarrow> (Rejected Type_error, s)
      | Data_reply success (Some response) \<Rightarrow>
          (if success then (Fulfilled response, s\<lparr>screenWidth := response\<rparr>)
           else (Rejected Invalid_response, s))
      | _ \<Rightarrow> (Rejected Invalid_response, s))"

definition getScreenWidth :: "externals \<Rightarrow> cont \<Rightarrow> client \<Rightarrow> jsnum promise \<times> client" where
  "getScreenWidth E k s =
     (if truthy (screenWidth s) then (Fulfilled (screenWidth s), s)
      else
        (case requestWebDriverAgent E k GET_SCREEN_WIDTH Args_undefined s of
           (Fulfilled temp, s1) \<Rightarrow> getScreenWidth_resume temp s1
         | (Rejected e, s1) \<Rightarrow> (Rejected e, s1)
         | (Pending i, s1) \<Rightarrow> (Pending i, s1)))"

definition pressButton :: "externals \<Rightarrow> string \<Rightarrow> client \<Rightarrow> Message promise \<times> client" where
  "pressButton E name s = requestWebDriverAgent E Caller PRESS_BUTTON (Args_name name) s"

text \<open>
  \<^verbatim>\<open>performClick\<close> from the point where the screen width is known. The promise is
  fulfilled with \<open>None\<close> where the method returns nothing.
\<close>

definition performClick_resume ::
  "externals \<Rightarrow> Position \<Rightarrow> jsnum \<Rightarrow> client \<Rightarrow> Message option promise \<times> client" where
  "performClick_resume E position w s =
     (case screenInfo s of
        None \<Rightarrow> (Rejected Type_error, s)
      | Some si \<Rightarrow>
          (case calculatePhysicalPoint (Position_rotate E) si w position of
             None \<Rightarrow> (Fulfilled None, s)
           | Some pt \<Rightarrow>
               (case requestWebDriverAgent E Caller CLICK (Args_xy pt) s of
                  (r, s1) \<Rightarrow> (map_promise Some r, s1))))"

definition performClick ::
  "externals \<Rightarrow> Position \<Rightarrow> client \<Rightarrow> Message option promise \<times> client" where
  "performClick E position s =
     (case screenInfo s of
        None \<Rightarrow> (Fulfilled None, s)
      | Some _ \<Rightarrow>
          (if truthy (screenWidth s) then performClick_resume E position (screenWidth s) s
           else
             (case getScreenWidth E (In_performClick position) s of
                (Fulfilled w, s1) \<Rightarrow> performClick_resume E position w s1
              | (Rejected e, s1) \<Rightarrow> (Rejected e, s1)
              | (Pending i, s1) \<Rightarrow> (Pending i, s1))))"

definition performScroll_resume ::
  "externals \<Rightarrow> Position \<Rightarrow> Position \<Rightarrow> jsnum \<Rightarrow> client \<Rightarrow> Message option promise \<times> client" where
  "performScroll_resume E from to wdaScreen s =
     (case screenInfo s of
        None \<Rightarrow> (Rejected Type_error, s)
      | Some si \<Rightarrow>
          (case (calculatePhysicalPoint (Position_rotate E) si wdaScreen from,
                 calculatePhysicalPoint (Position_rotate E) si wdaScreen to) of
             (Some fromPoint, Some toPoint) \<Rightarrow>
               (case requestWebDriverAgent E Caller SCROLL (Args_from_to fromPoint toPoint) s of
                  (r, s1) \<Rightarrow> (map_promise Some r, s1))
           | _ \<Rightarrow> (Fulfilled None, s)))"

definition performScroll ::
  "externals \<Rightarrow> Position \<Rightarrow> Position \<Rightarrow> client \<Rightarrow> Message option promise \<times> client" where
  "performScroll E from to s =
     (case screenInfo s of
        None \<Rightarrow> (Fulfilled None, s)
      | Some _ \<Rightarrow>
          (if truthy (screenWidth s) then performScroll_resume E from to (screenWidth s) s
           else
             (case getScreenWidth E (In_performScroll from to) s of
                (Fulfilled w, s1) \<Rightarrow> performScroll_resume E from to w s1
              | (Rejected e, s1) \<Rightarrow> (Rejected e, s1)
              | (Pending i, s1) \<Rightarrow> (Pending i, s1))))"

text \<open>
  What runs when a pending entry is resolved with \<open>m\<close>: the rest of the method that
  awaits it, up to its end or its next \<^verbatim>\<open>await\<close>.
\<close>

fun resume :: "externals \<Rightarrow> cont \<Rightarrow> Message \<Rightarrow> client \<Rightarrow> Message option promise \<times> client" where
  "resume E Caller m s = (Fulfilled (Some m), s)"
| "resume E In_runWebDriverAgent m s =
     (case runWebDriverAgent_resume m s of (r, s1) \<Rightarrow> (map_promise Some r, s1))"
| "resume E (In_performClick position) m s =
     (case getScreenWidth_resume m s of
        (Fulfilled w, s1) \<Rightarrow> performClick_resume E position w s1
      | (Rejected e, s1) \<Rightarrow> (Rejected e, s1)
      | (Pending i, s1) \<Rightarrow> (Pending i, s1))"
| "resume E (In_performScroll from to) m s =
     (case getScreenWidth_resume m s of
        (Fulfilled w, s1) \<Rightarrow> performScroll_resume E from to w s1
      | (Rejected e, s1) \<Rightarrow> (Rejected e, s1)
      | (Pending i, s1) \<Rightarrow> (Pending i, s1))"

definition stop :: "client \<Rightarrow> client" where
  "stop s =
     (if stopped s then s
      else
        let s1 = s\<lparr>stopped := True\<rparr>
        in if ws s1 = Some OPEN then (perform Ws_close s1)\<lparr>ws := Some CLOSING\<rparr> else s1)"

section \<open>The client over time\<close>

text \<open>
  One step of the client's life: a call of one of its public methods, or an event the
  runtime delivers. The results of the calls are dropped here; the state they leave is
  kept. A socket event is delivered only to a socket that can have it: \<^verbatim>\<open>open\<close> to a
  connecting one, which is open from then on, \<^verbatim>\<open>close\<close> to one not yet closed. The
  reconnect timer fires only when one is set, and \<open>Event_resume\<close> runs the code awaiting
  the oldest resolved promise. An event that cannot happen leaves the state as it is.
\<close>

datatype action =
    Call_runWebDriverAgent
  | Call_requestWebDriverAgent WDAMethod args
  | Call_pressButton string
  | Call_performClick Position
  | Call_performScroll Position Position
  | Call_setScreenInfo ScreenInfo
  | Call_sendMessage Message
  | Call_stop
  | Event_open
  | Event_close string
  | Event_message inbound
  | Event_timer
  | Event_resume

fun step :: "externals \<Rightarrow> action \<Rightarrow> client \<Rightarrow> client option" where
  "step E Call_runWebDriverAgent s = Some (snd (runWebDriverAgent E s))"
| "step E (Call_requestWebDriverAgent method a) s =
     Some (snd (requestWebDriverAgent E Caller method a s))"
| "step E (Call_pressButton name) s = Some (snd (pressButton E name s))"
| "step E (Call_performClick position) s = Some (snd (performClick E position s))"
| "step E (Call_performScroll from to) s = Some (snd (performScroll E from to s))"
| "step E (Call_setScreenInfo si) s = Some (setScreenInfo si s)"
| "step E (Call_sendMessage message) s = Some (snd (sendMessage E Caller message s))"
| "step E Call_stop s = Some (stop s)"
| "step E Event_open s =
     (if ws s = Some CONNECTING then onSocketOpen (s\<lparr>ws := Some OPEN\<rparr>) else Some s)"
| "step E (Event_close reason) s =
     (if ws s = Some CONNECTING \<or> ws s = Some OPEN \<or> ws s = Some CLOSING
      then Some (onSocketClose reason (s\<lparr>ws := Some CLOSED\<rparr>))
      else Some s)"
| "step E (Event_message e) s = Some (onSocketMessage e s)"
| "step E Event_timer s =
     (if 0 < timers s then Some (openNewConnection (s\<lparr>timers := timers s - 1\<rparr>)) else Some s)"
| "step E Event_resume s =
     (case resolved s of
        [] \<Rightarrow> Some s
      | (k, m) # rest \<Rightarrow> Some (snd (resume E k m (s\<lparr>resolved := rest\<rparr>))))"

fun run :: "externals \<Rightarrow> action list \<Rightarrow> client \<Rightarrow> client option" where
  "run E [] s = Some s"
| "run E (a # as) s = (case step E a s of None \<Rightarrow> None | Some s1 \<Rightarrow> run E as s1)"

text \<open>The frames written to the socket, oldest first.\<close>

fun frames_sent :: "effect list \<Rightarrow> string list" where
  "frames_sent [] = []"
| "frames_sent (Ws_send str # es) = str # frames_sent es"
| "frames_sent (e # es) = frames_sent es"

text \<open>How many reconnects were scheduled.\<close>

fun reconnects_scheduled :: "effect list \<Rightarrow> nat" where
  "reconnects_scheduled [] = 0"
| "reconnects_scheduled (SetTimeout_openNewConnection # es) = Suc (reconnects_scheduled es)"
| "reconnects_scheduled (e # es) = reconnects_scheduled es"

text \<open>How many times \<^verbatim>\<open>ws.close()\<close> was called.\<close>

fun close_attempts :: "effect list \<Rightarrow> nat" where
  "close_attempts [] = 0"
| "close_attempts (Ws_close # es) = Suc (close_attempts es)"
| "close_attempts (e # es) = close_attempts es"

section \<open>The geometry transform as the specification words it\<close>

text \<open>
  The steps of the specification, each formula read with the operators of the program's
  numbers. Step 1: the short side of the content rectangle is its vertical extent when the
  video is at least as wide as it is high, its horizontal extent otherwise. Step 2: the
  scale is the short side over the screen width.
\<close>

definition spec_shortSide :: "ScreenInfo \<Rightarrow> jsnum" where
  "spec_shortSide si =
     (if js_ge (width (videoSize si)) (height (videoSize si))
      then js_sub (rect_bottom (contentRect si)) (rect_top (contentRect si))
      else js_sub (rect_right (contentRect si)) (rect_left (contentRect si)))"

definition spec_scale :: "ScreenInfo \<Rightarrow> jsnum \<Rightarrow> jsnum" where
  "spec_scale si w = js_div (spec_shortSide si) w"

text \<open>
  Step 5, on one axis: \<open>origin + coordinate * extent / videoExtent\<close>. Step 6: divide by
  the scale and round.
\<close>

definition spec_map_axis :: "jsnum \<Rightarrow> jsnum \<Rightarrow> jsnum \<Rightarrow> jsnum \<Rightarrow> jsnum" where
  "spec_map_axis origin coordinate extent videoExtent =
     js_add origin (js_div (js_mul coordinate extent) videoExtent)"

definition spec_to_device :: "jsnum \<Rightarrow> jsnum \<Rightarrow> jsnum" where
  "spec_to_device scale v = Math_round (js_div v scale)"

definition spec_transform :: "rotate_fn \<Rightarrow> ScreenInfo \<Rightarrow> jsnum \<Rightarrow> Position \<Rightarrow> Point" where
  "spec_transform rot si w position =
     (let rotated = point (rot position (deviceRotation si));
          cr = contentRect si
      in \<lparr>point_x =
            spec_to_device (spec_scale si w)
              (spec_map_axis (rect_left cr) (point_x rotated) (Rect_getWidth cr)
                 (width (videoSize si))),
          point_y =
            spec_to_device (spec_scale si w)
              (spec_map_axis (rect_top cr) (point_y rotated) (Rect_getHeight cr)
                 (height (videoSize si)))\<rparr>)"

section \<open>Sample inputs\<close>

text \<open>
  Concrete collaborators and inputs on which the results below are evaluated: a device in
  its natural orientation, whose rotation leaves a position as it is; a serialiser that
  writes the type of a message and a mark for its payload; a portrait video of 1080 by
  1920 whose content fills the frame; a position taken against that video and one taken
  against the landscape video; a video of 828 by 1656 with a position taken against it.
\<close>

definition rotate_upright :: rotate_fn where
  "rotate_upright position rotation = position"

definition stringify_sample :: "Message \<Rightarrow> string" where
  "stringify_sample m =
     (case msg_type m of
        RUN_WDA \<Rightarrow> ''run-wda''
      | REQUEST_WDA \<Rightarrow>
          (case msg_data m of
             Data_method_args GET_SCREEN_WIDTH _ \<Rightarrow> ''request-wda:screen-width''
           | Data_method_args PRESS_BUTTON _ \<Rightarrow> ''request-wda:press-button''
           | Data_method_args CLICK _ \<Rightarrow> ''request-wda:click''
           | Data_method_args SCROLL _ \<Rightarrow> ''request-wda:scroll''
           | _ \<Rightarrow> ''request-wda'')
      | OtherCommand c \<Rightarrow> ''other'')"

definition sample_externals :: externals where
  "sample_externals = \<lparr>Position_rotate = rotate_upright, JSON_stringify = stringify_sample\<rparr>"

definition portrait :: ScreenInfo where
  "portrait =
     \<lparr>contentRect =
        \<lparr>rect_left = Fin 0, rect_top = Fin 0, rect_right = Fin 1080, rect_bottom = Fin 1920\<rparr>,
      videoSize = \<lparr>width = Fin 1080, height = Fin 1920\<rparr>,
      deviceRotation = 0\<rparr>"

definition phone :: ScreenInfo where
  "phone =
     \<lparr>contentRect =
        \<lparr>rect_left = Fin 0, rect_top = Fin 0, rect_right = Fin 828, rect_bottom = Fin 1656\<rparr>,
      videoSize = \<lparr>width = Fin 828, height = Fin 1656\<rparr>,
      deviceRotation = 0\<rparr>"

definition phone_position :: Position where
  "phone_position =
     \<lparr>point = \<lparr>point_x = Fin 138, point_y = Fin 0\<rparr>,
      screenSize = \<lparr>width = Fin 828, height = Fin 1656\<rparr>\<rparr>"

definition fresh_position :: Position where
  "fresh_position =
     \<lparr>point = \<lparr>point_x = Fin 300, point_y = Fin 600\<rparr>,
      screenSize = \<lparr>width = Fin 1080, height = Fin 1920\<rparr>\<rparr>"

definition stale_position :: Position where
  "stale_position =
     \<lparr>point = \<lparr>point_x = Fin 300, point_y = Fin 600\<rparr>,
      screenSize = \<lparr>width = Fin 1920, height = Fin 1080\<rparr>\<rparr>"

definition started_client :: client where
  "started_client =
     \<lparr>screenInfo = Some portrait, screenWidth = Fin 0, udid = ''device'', stopped = False,
      commands = [], hasSession = True, messageId = 1, wait = Map.empty,
      ws = Some OPEN, timers = 0, resolved = [],
      effects = [New_connection, Emit_connected True, Ws_send ''run-wda'']\<rparr>"

section \<open>Invariants used in the proofs\<close>

text \<open>
  A client is \<open>halted\<close> when it was stopped and no connection attempt is under way: no
  socket is connecting or open, and no reconnect timer is set.
\<close>

definition halted :: "client \<Rightarrow> bool" where
  "halted s = (stopped s \<and> timers s = 0 \<and> ws s \<noteq> Some CONNECTING \<and> ws s \<noteq> Some OPEN)"

text \<open>
  An identifier is \<open>settled\<close> when the counter has passed it and the table holds no entry
  for it.
\<close>

definition settled :: "int \<Rightarrow> client \<Rightarrow> bool" where
  "settled k s = (k \<le> messageId s \<and> wait s k = None)"

section \<open>Auxiliary facts\<close>

lemmas op_defs = runWebDriverAgent_def requestWebDriverAgent_def pressButton_def performClick_def
  performScroll_def performClick_resume_def performScroll_resume_def getScreenWidth_def
  getScreenWidth_resume_def runWebDriverAgent_resume_def setScreenInfo_def sendMessage_def
  sendCommand_def getNextId_def stop_def onSocketClose_def onSocketMessage_def
  openNewConnection_def perform_def Let_def

lemmas op_splits = if_splits option.splits prod.splits list.splits
  promise.splits data.splits inbound.splits ControlCenterCommand.splits

lemmas sample_defs = sample_externals_def stringify_sample_def rotate_upright_def portrait_def
  fresh_position_def stale_position_def started_client_def new_client_def

subsection \<open>The arithmetic of doubles on some inputs\<close>

text \<open>
  828 / 375 is not a double and is rounded; 138 over the result is just below 62.5; a zero
  keeps its sign and gives the infinity of that sign when divided by; and \<open>2^53 + 1\<close>
  is a tie that goes to the even neighbour \<open>2^53\<close>.
\<close>

lemma double_arithmetic_examples:
  "js_div (Fin 828) (Fin 375) = Fin (1242993497154257 / 562949953421312)"
  "js_div (Fin 138) (Fin (1242993497154257 / 562949953421312)) =
     Fin (8796093022207999 / 140737488355328)"
  "Math_round (Fin (8796093022207999 / 140737488355328)) = Fin 62"
  "js_div (Fin 0) (Fin (- 360)) = NegZero"
  "js_div (Fin 7) NegZero = NInf"
  "js_add (Fin (2 ^ 53)) (Fin 1) = Fin (2 ^ 53)"
  by code_simp+

subsection \<open>The flush loop ends on an open socket\<close>

lemma flush_commands_open:
  "ws s = Some OPEN \<Longrightarrow>
   flush_commands s =
     Some (s\<lparr>commands := [],
             effects := effects s @ map Ws_send (filter (\<lambda>str. str \<noteq> []) (commands s))\<rparr>)"
proof (induction "commands s" arbitrary: s)
  case Nil
  then show ?case by (subst flush_commands.simps) simp
next
  case (Cons str rest)
  from Cons.hyps(2) have q: "commands s = str # rest" by simp
  show ?case
  proof (cases "str = []")
    case True
    let ?s1 = "s\<lparr>commands := rest\<rparr>"
    have "flush_commands s = flush_commands ?s1"
      by (subst flush_commands.simps) (simp add: q True)
    also have "\<dots> = Some (?s1\<lparr>commands := [],
             effects := effects ?s1 @ map Ws_send (filter (\<lambda>str. str \<noteq> []) (commands ?s1))\<rparr>)"
      by (rule Cons.hyps(1)) (simp_all add: Cons.prems)
    finally show ?thesis by (simp add: q True)
  next
    case False
    let ?s1 = "sendCommand str (s\<lparr>commands := rest\<rparr>)"
    have s1: "?s1 = (s\<lparr>commands := rest, effects := effects s @ [Ws_send str]\<rparr>)"
      by (simp add: sendCommand_def perform_def Cons.prems)
    have "flush_commands s = flush_commands ?s1"
      by (subst flush_commands.simps) (simp add: q False)
    also have "\<dots> = Some (?s1\<lparr>commands := [],
             effects := effects ?s1 @ map Ws_send (filter (\<lambda>str. str \<noteq> []) (commands ?s1))\<rparr>)"
      by (rule Cons.hyps(1)) (simp_all add: s1 Cons.prems)
    finally show ?thesis by (simp add: q False s1)
  qed
qed

lemma onSocketOpen_open:
  "ws s = Some OPEN \<Longrightarrow>
   onSocketOpen s =
     Some (s\<lparr>commands := [],
             effects := effects s @ Emit_connected True #
                        map Ws_send (filter (\<lambda>str. str \<noteq> []) (commands s))\<rparr>)"
  by (simp add: onSocketOpen_def flush_commands_open perform_def)

lemma fold_sendCommand_not_open:
  "ws s \<noteq> Some OPEN \<Longrightarrow> fold sendCommand frames s = s\<lparr>commands := commands s @ frames\<rparr>"
  by (induction frames arbitrary: s) (simp_all add: sendCommand_def)

lemma filter_nonempty: "[] \<notin> set xs \<Longrightarrow> filter (\<lambda>str. str \<noteq> []) xs = xs"
  by (induction xs) auto

subsection \<open>Every step returns\<close>

lemma step_total: "\<exists>s1. step E a s = Some s1"
  by (cases a) (simp_all add: onSocketOpen_open split: list.split prod.split)

lemma run_total: "\<exists>s1. run E as s = Some s1"
proof (induction as arbitrary: s)
  case Nil
  show ?case by simp
next
  case (Cons a as)
  obtain s1 where "step E a s = Some s1" using step_total by blast
  with Cons show ?case by simp
qed

lemma run_Cons_Some:
  "run E (a # as) s = Some s1 \<Longrightarrow> \<exists>s2. step E a s = Some s2 \<and> run E as s2 = Some s1"
  by (simp split: option.splits)

subsection \<open>Counting effects\<close>

lemma frames_sent_append: "frames_sent (es @ fs) = frames_sent es @ frames_sent fs"
  by (induction es rule: frames_sent.induct) simp_all

lemma reconnects_scheduled_append:
  "reconnects_scheduled (es @ fs) = reconnects_scheduled es + reconnects_scheduled fs"
  by (induction es rule: reconnects_scheduled.induct) simp_all

lemma reconnects_scheduled_sends: "reconnects_scheduled (map Ws_send xs) = 0"
  by (induction xs) simp_all

subsection \<open>The session flag is kept\<close>

lemma resume_hasSession: "hasSession s \<Longrightarrow> hasSession (snd (resume E k m s))"
  by (cases k) (auto simp: op_defs split: op_splits)

lemma step_hasSession: "step E a s = Some s1 \<Longrightarrow> hasSession s \<Longrightarrow> hasSession s1"
  by (cases a) (auto simp: op_defs onSocketOpen_open resume_hasSession split: op_splits)

lemma run_hasSession: "run E as s = Some s1 \<Longrightarrow> hasSession s \<Longrightarrow> hasSession s1"
proof (induction as arbitrary: s)
  case Nil
  then show ?case by simp
next
  case (Cons a as)
  from run_Cons_Some [OF Cons.prems(1)]
  obtain s2 where a: "step E a s = Some s2" and r: "run E as s2 = Some s1" by blast
  from Cons.IH [OF r step_hasSession [OF a Cons.prems(2)]] show ?case .
qed

subsection \<open>The counter never goes back\<close>

lemma resume_messageId: "messageId s \<le> messageId (snd (resume E k m s))"
  by (cases k) (auto simp: op_defs split: op_splits)

lemma step_messageId: "step E a s = Some s1 \<Longrightarrow> messageId s \<le> messageId s1"
  by (cases a)
     (insert resume_messageId [of "s\<lparr>resolved := tl (resolved s)\<rparr>" E],
      auto simp: op_defs onSocketOpen_open split: op_splits)

lemma run_messageId: "run E as s = Some s1 \<Longrightarrow> messageId s \<le> messageId s1"
proof (induction as arbitrary: s)
  case Nil
  then show ?case by simp
next
  case (Cons a as)
  from run_Cons_Some [OF Cons.prems]
  obtain s2 where a: "step E a s = Some s2" and r: "run E as s2 = Some s1" by blast
  from step_messageId [OF a] Cons.IH [OF r] show ?case by simp
qed

subsection \<open>A stopped client stays stopped and schedules no reconnect\<close>

lemma resume_stopped:
  "stopped s \<Longrightarrow>
   stopped (snd (resume E k m s)) \<and>
   reconnects_scheduled (effects (snd (resume E k m s))) = reconnects_scheduled (effects s)"
  by (cases k) (auto simp: op_defs reconnects_scheduled_append split: op_splits)

lemma step_stopped:
  "step E a s = Some s1 \<Longrightarrow> stopped s \<Longrightarrow>
   stopped s1 \<and> reconnects_scheduled (effects s1) = reconnects_scheduled (effects s)"
  by (cases a)
     (insert resume_stopped [of "s\<lparr>resolved := tl (resolved s)\<rparr>" E],
      auto simp: op_defs onSocketOpen_open reconnects_scheduled_append reconnects_scheduled_sends
           split: op_splits)

lemma run_stopped:
  "run E as s = Some s1 \<Longrightarrow> stopped s \<Longrightarrow>
   stopped s1 \<and> reconnects_scheduled (effects s1) = reconnects_scheduled (effects s)"
proof (induction as arbitrary: s)
  case Nil
  then show ?case by simp
next
  case (Cons a as)
  from run_Cons_Some [OF Cons.prems(1)]
  obtain s2 where a: "step E a s = Some s2" and r: "run E as s2 = Some s1" by blast
  from step_stopped [OF a Cons.prems(2)] Cons.IH [OF r] show ?case by simp
qed

subsection \<open>A halted client writes nothing\<close>

lemma resume_halted:
  "halted s \<Longrightarrow>
   halted (snd (resume E k m s)) \<and>
   frames_sent (effects (snd (resume E k m s))) = frames_sent (effects s)"
  by (cases k) (auto simp: halted_def op_defs frames_sent_append split: op_splits)

lemma step_halted:
  "step E a s = Some s1 \<Longrightarrow> halted s \<Longrightarrow>
   halted s1 \<and> frames_sent (effects s1) = frames_sent (effects s)"
  by (cases a)
     (insert resume_halted [of "s\<lparr>resolved := tl (resolved s)\<rparr>" E],
      auto simp: halted_def op_defs frames_sent_append split: op_splits)

lemma run_halted:
  "run E as s = Some s1 \<Longrightarrow> halted s \<Longrightarrow>
   halted s1 \<and> frames_sent (effects s1) = frames_sent (effects s)"
proof (induction as arbitrary: s)
  case Nil
  then show ?case by simp
next
  case (Cons a as)
  from run_Cons_Some [OF Cons.prems(1)]
  obtain s2 where a: "step E a s = Some s2" and r: "run E as s2 = Some s1" by blast
  from step_halted [OF a Cons.prems(2)] Cons.IH [OF r] show ?case by simp
qed

lemma stop_twice: "stop (stop s) = stop s"
  by (simp add: stop_def Let_def perform_def)

lemma stopped_stop: "stopped (stop s)"
  by (simp add: stop_def Let_def perform_def)

lemma halted_stop:
  "\<not> stopped s \<Longrightarrow> timers s = 0 \<Longrightarrow> ws s \<noteq> Some CONNECTING \<Longrightarrow> halted (stop s)"
  by (simp add: stop_def Let_def perform_def halted_def)

subsection \<open>A settled identifier stays settled\<close>

lemma resume_settled: "settled k s \<Longrightarrow> settled k (snd (resume E c m s))"
  by (cases c) (auto simp: settled_def op_defs split: op_splits)

lemma step_settled:
  "step E a s = Some s1 \<Longrightarrow> settled k s \<Longrightarrow>
   (\<forall>m. a = Call_sendMessage m \<longrightarrow> msg_id m \<noteq> k) \<Longrightarrow> settled k s1"
  by (cases a)
     (insert resume_settled [of k "s\<lparr>resolved := tl (resolved s)\<rparr>" E],
      auto simp: settled_def op_defs onSocketOpen_open split: op_splits)

lemma run_settled:
  "run E as s = Some s1 \<Longrightarrow> settled k s \<Longrightarrow>
   (\<forall>m. Call_sendMessage m \<in> set as \<longrightarrow> msg_id m \<noteq> k) \<Longrightarrow> settled k s1"
proof (induction as arbitrary: s)
  case Nil
  then show ?case by simp
next
  case (Cons a as)
  from run_Cons_Some [OF Cons.prems(1)]
  obtain s2 where a: "step E a s = Some s2" and r: "run E as s2 = Some s1" by blast
  have "settled k s2" using step_settled [OF a Cons.prems(2)] Cons.prems(3) by simp
  then show ?case using Cons.IH [OF r] Cons.prems(3) by simp
qed

subsection \<open>The sample client is one the constructor leads to\<close>

lemma started_client_reachable:
  "run sample_externals
     [Call_setScreenInfo portrait, Event_open, Call_runWebDriverAgent,
      Event_message (Parsed \<lparr>msg_id = 1, msg_type = RUN_WDA, msg_data = Data_reply True None\<rparr>),
      Event_resume]
     (new_client ''device'') = Some started_client"
  by (simp add: op_defs onSocketOpen_open sample_defs)

section \<open>The geometry transform\<close>

text \<open>
  Claim C1. For every screen descriptor, screen width and position whose rotated recorded
  screen size equals the current video size, \<^verbatim>\<open>calculatePhysicalPoint\<close> returns the point
  the specification describes: the short side is the content rectangle's vertical extent
  when the video is at least as wide as high and its horizontal extent otherwise, the scale
  is the short side over the screen width, the point is rotated by the device rotation,
  mapped into the content rectangle, divided by the scale and rounded. The operations are
  the program's operations on doubles, taken in the order the formulas are written.
\<close>

theorem calculatePhysicalPoint_follows_spec:
  "Size_equals (videoSize si) (screenSize (rot position (deviceRotation si))) \<Longrightarrow>
   calculatePhysicalPoint rot si w position = Some (spec_transform rot si w position)"
  by (simp add: calculatePhysicalPoint_def spec_transform_def spec_to_device_def
      spec_map_axis_def spec_scale_def spec_shortSide_def Let_def)

text \<open>
  On the video of 828 by 1656 with a screen width of 375 the scale is the double nearest to
  2.208, and the point (138, 0) of the video is the device point (62, 0): the quotient of
  138 by that scale is the double just below 62.5, which rounds down. On the portrait video with
  a screen width of 360 the scale is 3 and the point (300, 600) is the device point
  (100, 200).
\<close>

theorem calculatePhysicalPoint_follows_spec_witness:
  "Size_equals (videoSize phone)
     (screenSize (rotate_upright phone_position (deviceRotation phone)))
   \<and> spec_scale phone (Fin 375) = Fin (1242993497154257 / 562949953421312)
   \<and> calculatePhysicalPoint rotate_upright phone (Fin 375) phone_position =
       Some \<lparr>point_x = Fin 62, point_y = Fin 0\<rparr>
   \<and> calculatePhysicalPoint rotate_upright portrait (Fin 360) fresh_position =
       Some \<lparr>point_x = Fin 100, point_y = Fin 200\<rparr>"
proof -
  have same: "Size_equals (videoSize phone)
      (screenSize (rotate_upright phone_position (deviceRotation phone)))"
    by (simp add: Size_equals_def js_eq_def phone_def phone_position_def rotate_upright_def)
  have scale: "spec_scale phone (Fin 375) = Fin (1242993497154257 / 562949953421312)"
    by code_simp
  have device: "spec_transform rotate_upright phone (Fin 375) phone_position =
      \<lparr>point_x = Fin 62, point_y = Fin 0\<rparr>"
    by code_simp
  have upright: "calculatePhysicalPoint rotate_upright portrait (Fin 360) fresh_position =
      Some \<lparr>point_x = Fin 100, point_y = Fin 200\<rparr>"
    by code_simp
  show ?thesis
    using calculatePhysicalPoint_follows_spec
            [of phone rotate_upright phone_position "Fin 375"]
          same scale device upright
    by simp
qed

text \<open>
  Claim C4. Whenever the position's recorded screen size, after the rotation step, differs
  from the current video size, \<^verbatim>\<open>calculatePhysicalPoint\<close> returns no point, for every
  input point, every screen width and every rotation: the result is the absent value, not
  a coordinate and not an error.
\<close>

theorem calculatePhysicalPoint_drops_stale_position:
  "\<not> Size_equals (videoSize si) (screenSize (rot position (deviceRotation si))) \<Longrightarrow>
   calculatePhysicalPoint rot si w position = None"
  by (simp add: calculatePhysicalPoint_def Let_def)

theorem calculatePhysicalPoint_drops_stale_position_witness:
  "\<not> Size_equals (videoSize portrait)
       (screenSize (rotate_upright stale_position (deviceRotation portrait)))
   \<and> calculatePhysicalPoint rotate_upright portrait (Fin 360) stale_position = None"
  using calculatePhysicalPoint_drops_stale_position
          [of portrait rotate_upright stale_position "Fin 360"]
  by (simp add: Size_equals_def js_eq_def portrait_def stale_position_def rotate_upright_def)

section \<open>The session\<close>

text \<open>
  Claim C2. \<^verbatim>\<open>runWebDriverAgent\<close> is pending on the identifier it took; a frame with that
  identifier, whatever its type and data say, resolves its entry; and the code that then
  resumes sets \<^verbatim>\<open>hasSession\<close> to true and returns that frame to the caller.
\<close>

theorem runWebDriverAgent_any_response_sets_hasSession:
  "msg_id m = messageId s + 1 \<Longrightarrow>
   fst (runWebDriverAgent E s) = Pending (msg_id m)
   \<and> resolved (onSocketMessage (Parsed m) (snd (runWebDriverAgent E s))) =
       resolved s @ [(In_runWebDriverAgent, m)]
   \<and> resume E In_runWebDriverAgent m s2 = (Fulfilled (Some m), s2\<lparr>hasSession := True\<rparr>)"
  by (simp add: op_defs)

text \<open>A response that reports a failure starts the session all the same.\<close>

theorem runWebDriverAgent_any_response_sets_hasSession_witness:
  "msg_id \<lparr>msg_id = 1, msg_type = RUN_WDA, msg_data = Data_reply False None\<rparr> =
     messageId (new_client ''device'') + 1
   \<and> fst (runWebDriverAgent sample_externals (new_client ''device'')) = Pending 1
   \<and> resolved
        (onSocketMessage
           (Parsed \<lparr>msg_id = 1, msg_type = RUN_WDA, msg_data = Data_reply False None\<rparr>)
           (snd (runWebDriverAgent sample_externals (new_client ''device'')))) =
       [(In_runWebDriverAgent, \<lparr>msg_id = 1, msg_type = RUN_WDA, msg_data = Data_reply False None\<rparr>)]
   \<and> hasSession
        (snd (resume sample_externals In_runWebDriverAgent
                \<lparr>msg_id = 1, msg_type = RUN_WDA, msg_data = Data_reply False None\<rparr>
                (new_client ''device'')))"
  using runWebDriverAgent_any_response_sets_hasSession
          [of "\<lparr>msg_id = 1, msg_type = RUN_WDA, msg_data = Data_reply False None\<rparr>"
              "new_client ''device''" sample_externals "new_client ''device''"]
  by (simp add: new_client_def openNewConnection_def perform_def)

text \<open>
  Claim C5. Called while \<^verbatim>\<open>hasSession\<close> is false, \<^verbatim>\<open>requestWebDriverAgent\<close> is rejected
  with the error "No session" and leaves the whole state as it was: no frame is written,
  none is queued, no identifier is taken.
\<close>

theorem requestWebDriverAgent_without_session:
  "\<not> hasSession s \<Longrightarrow> requestWebDriverAgent E k method a s = (Rejected No_session, s)"
  by (simp add: requestWebDriverAgent_def)

theorem requestWebDriverAgent_without_session_witness:
  "\<not> hasSession (new_client ''device'')
   \<and> requestWebDriverAgent sample_externals Caller PRESS_BUTTON (Args_name ''home'')
       (new_client ''device'') = (Rejected No_session, new_client ''device'')"
  using requestWebDriverAgent_without_session
          [of "new_client ''device''" sample_externals Caller PRESS_BUTTON "Args_name ''home''"]
  by (simp add: new_client_def openNewConnection_def perform_def)

text \<open>
  Claim C10. Once \<^verbatim>\<open>hasSession\<close> is true it stays true through every sequence of calls
  and events (\<^verbatim>\<open>stop\<close>, a close, a reconnect among them), each of which returns, and
  \<^verbatim>\<open>requestWebDriverAgent\<close> then passes its check and is pending on a new identifier.
\<close>

theorem hasSession_never_reset:
  "hasSession s \<Longrightarrow>
   \<exists>s1. run E as s = Some s1 \<and> hasSession s1 \<and>
        fst (requestWebDriverAgent E k method a s1) = Pending (messageId s1 + 1)"
proof -
  assume h: "hasSession s"
  obtain s1 where r: "run E as s = Some s1" using run_total by blast
  from run_hasSession [OF r h] have "hasSession s1" .
  then show ?thesis
    using r by (simp add: requestWebDriverAgent_def sendMessage_def getNextId_def Let_def)
qed

text \<open>The connection is lost, the client reconnects and is then stopped.\<close>

theorem hasSession_never_reset_witness:
  "hasSession started_client
   \<and> (\<exists>s1. run sample_externals [Event_close ''lost'', Event_timer, Event_open, Call_stop]
              started_client = Some s1
          \<and> hasSession s1 \<and> stopped s1 \<and> ws s1 = Some CLOSING
          \<and> fst (requestWebDriverAgent sample_externals Caller PRESS_BUTTON (Args_name ''home'') s1)
              = Pending 2)"
  using hasSession_never_reset
          [of started_client sample_externals
              "[Event_close ''lost'', Event_timer, Event_open, Call_stop]"
              Caller PRESS_BUTTON "Args_name ''home''"]
  by (simp add: op_defs onSocketOpen_open started_client_def)

section \<open>Identifiers and pending requests\<close>

text \<open>
  Claim C8. Whatever the client did since it was constructed, \<^verbatim>\<open>getNextId\<close> returns an
  integer above zero; and whatever it does after that call (closes and reconnects among
  it), every later call of \<^verbatim>\<open>getNextId\<close> returns a strictly greater one. So the
  identifiers of any sequence of calls increase strictly and none is returned twice. The
  counter is an integer of the model; the program counts in a double, which is exact on the
  integers up to 2 to the power 53.
\<close>

theorem getNextId_strictly_increasing:
  "\<exists>s s1. run E as1 (new_client u) = Some s
        \<and> run E as2 (snd (getNextId s)) = Some s1
        \<and> 0 < fst (getNextId s)
        \<and> fst (getNextId s) < fst (getNextId s1)"
proof -
  obtain s where r1: "run E as1 (new_client u) = Some s" using run_total by blast
  obtain s1 where r2: "run E as2 (snd (getNextId s)) = Some s1" using run_total by blast
  have "0 \<le> messageId s"
    using run_messageId [OF r1] by (simp add: new_client_def openNewConnection_def perform_def)
  moreover have "messageId s + 1 \<le> messageId s1"
    using run_messageId [OF r2] by (simp add: getNextId_def)
  ultimately have "0 < fst (getNextId s) \<and> fst (getNextId s) < fst (getNextId s1)"
    by (simp add: getNextId_def)
  with r1 r2 show ?thesis by blast
qed

text \<open>
  The first identifier went to \<^verbatim>\<open>runWebDriverAgent\<close>; the next call returns 2, and after
  a close, a reconnect and a button press the call after that returns 4.
\<close>

theorem getNextId_strictly_increasing_witness:
  "run sample_externals
     [Call_setScreenInfo portrait, Event_open, Call_runWebDriverAgent,
      Event_message (Parsed \<lparr>msg_id = 1, msg_type = RUN_WDA, msg_data = Data_reply True None\<rparr>),
      Event_resume]
     (new_client ''device'') = Some started_client
   \<and> fst (getNextId started_client) = 2
   \<and> (\<exists>s1. run sample_externals
              [Event_close ''lost'', Event_timer, Event_open, Call_pressButton ''home'']
              (snd (getNextId started_client)) = Some s1
          \<and> fst (getNextId s1) = 4)"
proof -
  have first: "fst (getNextId started_client) = 2"
    by (simp add: getNextId_def started_client_def)
  have later:
    "\<exists>s1. run sample_externals
             [Event_close ''lost'', Event_timer, Event_open, Call_pressButton ''home'']
             (snd (getNextId started_client)) = Some s1
         \<and> fst (getNextId s1) = 4"
    by (simp add: op_defs onSocketOpen_open started_client_def)
  show ?thesis
    using getNextId_strictly_increasing
            [of sample_externals
                "[Call_setScreenInfo portrait, Event_open, Call_runWebDriverAgent,
                  Event_message
                    (Parsed \<lparr>msg_id = 1, msg_type = RUN_WDA, msg_data = Data_reply True None\<rparr>),
                  Event_resume]"
                "''device''"
                "[Event_close ''lost'', Event_timer, Event_open, Call_pressButton ''home'']"]
          started_client_reachable first later
    by blast
qed

text \<open>
  Claim C3, as stated, fails in its last part. \<^verbatim>\<open>sendMessage\<close> is public and registers
  the entry under whatever identifier the message carries. In the first run a caller sends
  a message with the identifier 7, its response is delivered, and the caller sends a message
  with 7 again: the table holds an entry for 7, whose response was delivered. In the second
  run the counter stands at 1, a caller sends a message with the identifier 2, its response
  is delivered, and \<^verbatim>\<open>pressButton\<close> then takes 2 from the counter: the table holds an
  entry for 2 again.
\<close>

theorem delivered_identifier_registered_again_counterexample:
  "run sample_externals
     [Call_sendMessage
        \<lparr>msg_id = 7, msg_type = REQUEST_WDA,
         msg_data = Data_method_args PRESS_BUTTON (Args_name ''home'')\<rparr>,
      Event_message
        (Parsed \<lparr>msg_id = 7, msg_type = REQUEST_WDA, msg_data = Data_reply True None\<rparr>),
      Call_sendMessage
        \<lparr>msg_id = 7, msg_type = REQUEST_WDA,
         msg_data = Data_method_args PRESS_BUTTON (Args_name ''lock'')\<rparr>]
     started_client =
   Some (started_client
          \<lparr>wait := [7 \<mapsto> Caller],
           resolved :=
             [(Caller, \<lparr>msg_id = 7, msg_type = REQUEST_WDA, msg_data = Data_reply True None\<rparr>)],
           effects :=
             effects started_client @
             [Ws_send ''request-wda:press-button'', Ws_send ''request-wda:press-button'']\<rparr>)
   \<and> run sample_externals
       [Call_sendMessage
          \<lparr>msg_id = 2, msg_type = REQUEST_WDA,
           msg_data = Data_method_args PRESS_BUTTON (Args_name ''home'')\<rparr>,
        Event_message
          (Parsed \<lparr>msg_id = 2, msg_type = REQUEST_WDA, msg_data = Data_reply True None\<rparr>),
        Call_pressButton ''lock'']
       started_client =
     Some (started_client
            \<lparr>messageId := 2,
             wait := [2 \<mapsto> Caller],
             resolved :=
               [(Caller, \<lparr>msg_id = 2, msg_type = REQUEST_WDA, msg_data = Data_reply True None\<rparr>)],
             effects :=
               effects started_client @
               [Ws_send ''request-wda:press-button'', Ws_send ''request-wda:press-button'']\<rparr>)"
  by (simp add: op_defs sample_defs)

text \<open>
  Claim C3, amended. When an inbound frame carries the identifier \<open>k\<close> of a pending entry,
  \<^verbatim>\<open>onSocketMessage\<close> removes that entry and no other, resolves that entry's promise with
  the whole message, and changes nothing else. A second frame with the same identifier
  resolves nothing. Two responses to two pending requests leave the same table and resolve
  the same two promises with their own messages in whichever order they arrive. And once
  the response to an identifier that the counter has issued is delivered, the table holds
  no entry for it after any further calls and events, as long as no caller hands that
  identifier to \<^verbatim>\<open>sendMessage\<close> again.
\<close>

theorem onSocketMessage_completes_matching_entry:
  assumes "wait s k = Some p" and "msg_id m = k"
  shows
    "onSocketMessage (Parsed m) s =
       s\<lparr>wait := (wait s)(k := None), resolved := resolved s @ [(p, m)]\<rparr>
     \<and> (\<forall>m2. msg_id m2 = k \<longrightarrow>
           resolved (onSocketMessage (Parsed m2) (onSocketMessage (Parsed m) s)) =
             resolved s @ [(p, m)]
           \<and> wait (onSocketMessage (Parsed m2) (onSocketMessage (Parsed m) s)) =
               (wait s)(k := None))
     \<and> (\<forall>j q mj. j \<noteq> k \<and> wait s j = Some q \<and> msg_id mj = j \<longrightarrow>
           wait (onSocketMessage (Parsed m) (onSocketMessage (Parsed mj) s)) =
             wait (onSocketMessage (Parsed mj) (onSocketMessage (Parsed m) s))
           \<and> resolved (onSocketMessage (Parsed m) (onSocketMessage (Parsed mj) s)) =
               resolved s @ [(q, mj), (p, m)]
           \<and> resolved (onSocketMessage (Parsed mj) (onSocketMessage (Parsed m) s)) =
               resolved s @ [(p, m), (q, mj)])
     \<and> (k \<le> messageId s \<and> (\<forall>m3. Call_sendMessage m3 \<in> set as \<longrightarrow> msg_id m3 \<noteq> k) \<longrightarrow>
           (\<exists>s1. run E as (onSocketMessage (Parsed m) s) = Some s1 \<and> wait s1 k = None))"
proof -
  have deliver:
    "onSocketMessage (Parsed m) s =
       s\<lparr>wait := (wait s)(k := None), resolved := resolved s @ [(p, m)]\<rparr>"
    using assms by (simp add: onSocketMessage_def)
  have again:
    "resolved (onSocketMessage (Parsed m2) (onSocketMessage (Parsed m) s)) =
       resolved s @ [(p, m)]
     \<and> wait (onSocketMessage (Parsed m2) (onSocketMessage (Parsed m) s)) = (wait s)(k := None)"
    if "msg_id m2 = k" for m2
    using that
    by (simp add: deliver) (simp add: onSocketMessage_def perform_def split: ControlCenterCommand.splits)
  have order:
    "wait (onSocketMessage (Parsed m) (onSocketMessage (Parsed mj) s)) =
       wait (onSocketMessage (Parsed mj) (onSocketMessage (Parsed m) s))
     \<and> resolved (onSocketMessage (Parsed m) (onSocketMessage (Parsed mj) s)) =
         resolved s @ [(q, mj), (p, m)]
     \<and> resolved (onSocketMessage (Parsed mj) (onSocketMessage (Parsed m) s)) =
         resolved s @ [(p, m), (q, mj)]"
    if "j \<noteq> k" "wait s j = Some q" "msg_id mj = j" for j q mj
    using that assms by (auto simp: onSocketMessage_def)
  have later: "\<exists>s1. run E as (onSocketMessage (Parsed m) s) = Some s1 \<and> wait s1 k = None"
    if "k \<le> messageId s" "\<forall>m3. Call_sendMessage m3 \<in> set as \<longrightarrow> msg_id m3 \<noteq> k"
  proof -
    obtain s1 where r: "run E as (onSocketMessage (Parsed m) s) = Some s1"
      using run_total by blast
    have "settled k (onSocketMessage (Parsed m) s)"
      using that(1) by (simp add: deliver settled_def)
    from run_settled [OF r this that(2)] r show ?thesis by (auto simp: settled_def)
  qed
  from deliver again order later show ?thesis by blast
qed

text \<open>
  Two button presses are pending under 2 and 3. The response to 3 arrives first and
  resolves the second press only; the response to 2 then resolves the first; after two more
  requests and a reconnect the table holds the two new entries and none for 3.
\<close>

theorem onSocketMessage_completes_matching_entry_witness:
  "wait (snd (pressButton sample_externals ''lock''
           (snd (pressButton sample_externals ''home'' started_client)))) 3 = Some Caller
   \<and> wait
        (onSocketMessage
           (Parsed \<lparr>msg_id = 3, msg_type = REQUEST_WDA, msg_data = Data_reply True None\<rparr>)
           (snd (pressButton sample_externals ''lock''
              (snd (pressButton sample_externals ''home'' started_client))))) =
       [2 \<mapsto> Caller]
   \<and> resolved
        (onSocketMessage
           (Parsed \<lparr>msg_id = 2, msg_type = REQUEST_WDA, msg_data = Data_reply False None\<rparr>)
           (onSocketMessage
              (Parsed \<lparr>msg_id = 3, msg_type = REQUEST_WDA, msg_data = Data_reply True None\<rparr>)
              (snd (pressButton sample_externals ''lock''
                 (snd (pressButton sample_externals ''home'' started_client)))))) =
       [(Caller, \<lparr>msg_id = 3, msg_type = REQUEST_WDA, msg_data = Data_reply True None\<rparr>),
        (Caller, \<lparr>msg_id = 2, msg_type = REQUEST_WDA, msg_data = Data_reply False None\<rparr>)]
   \<and> (\<exists>s1. run sample_externals
              [Call_pressButton ''home'', Event_close ''lost'', Event_timer, Event_open,
               Call_pressButton ''lock'']
              (onSocketMessage
                 (Parsed \<lparr>msg_id = 3, msg_type = REQUEST_WDA, msg_data = Data_reply True None\<rparr>)
                 (snd (pressButton sample_externals ''lock''
                    (snd (pressButton sample_externals ''home'' started_client))))) = Some s1
          \<and> wait s1 3 = None \<and> dom (wait s1) = {2, 4, 5})"
  using onSocketMessage_completes_matching_entry
          [of "snd (pressButton sample_externals ''lock''
                 (snd (pressButton sample_externals ''home'' started_client)))"
              3 Caller
              "\<lparr>msg_id = 3, msg_type = REQUEST_WDA, msg_data = Data_reply True None\<rparr>"
              "[Call_pressButton ''home'', Event_close ''lost'', Event_timer, Event_open,
                Call_pressButton ''lock'']"
              sample_externals]
  by (auto simp: op_defs onSocketOpen_open started_client_def)

section \<open>The outbound queue\<close>

text \<open>
  Claim C9. Frames passed to \<^verbatim>\<open>sendCommand\<close> while the socket is not open are appended
  to the queue in the order of the calls and nothing is written; when the socket then
  opens, \<^verbatim>\<open>onSocketOpen\<close> returns, having written every queued frame in the order it
  was queued, and leaves the queue empty. The frames are the texts \<^verbatim>\<open>JSON.stringify\<close>
  gives for a message, which are never empty: \<^verbatim>\<open>onSocketOpen\<close> skips an empty string.
\<close>

theorem queued_frames_flushed_in_order:
  assumes "ws s \<noteq> Some OPEN" and "[] \<notin> set (commands s)" and "[] \<notin> set frames"
  shows
    "commands (fold sendCommand frames s) = commands s @ frames
     \<and> effects (fold sendCommand frames s) = effects s
     \<and> onSocketOpen ((fold sendCommand frames s)\<lparr>ws := Some OPEN\<rparr>) =
         Some ((fold sendCommand frames s)
                \<lparr>ws := Some OPEN, commands := [],
                 effects :=
                   effects s @ Emit_connected True # map Ws_send (commands s @ frames)\<rparr>)"
  using assms by (simp add: fold_sendCommand_not_open onSocketOpen_open filter_nonempty)

theorem queued_frames_flushed_in_order_witness:
  "ws (new_client ''device'') \<noteq> Some OPEN
   \<and> [] \<notin> set (commands (new_client ''device''))
   \<and> [] \<notin> set [''first'', ''second'', ''third'']
   \<and> commands (fold sendCommand [''first'', ''second'', ''third''] (new_client ''device'')) =
       [''first'', ''second'', ''third'']
   \<and> step sample_externals Event_open
        (fold sendCommand [''first'', ''second'', ''third''] (new_client ''device'')) =
       Some ((new_client ''device'')
              \<lparr>ws := Some OPEN,
               effects :=
                 [New_connection, Emit_connected True,
                  Ws_send ''first'', Ws_send ''second'', Ws_send ''third'']\<rparr>)"
  using queued_frames_flushed_in_order
          [of "new_client ''device''" "[''first'', ''second'', ''third'']"]
  by (simp add: new_client_def openNewConnection_def perform_def sendCommand_def)

section \<open>Clicks and scrolls\<close>

text \<open>
  Claim C6, as stated, fails. The sample client has a screen descriptor and a session but
  has not yet learnt the screen width, and the position was taken against the landscape
  video, so the transform yields no point for it. \<^verbatim>\<open>performClick\<close> asks the device for
  the screen width before it looks at the position: it writes a request frame and is
  pending on its answer. On a client with a screen descriptor and no session the same call
  is rejected with "No session".
\<close>

theorem performClick_stale_position_counterexample:
  "screenInfo started_client = Some portrait
   \<and> calculatePhysicalPoint (Position_rotate sample_externals) portrait
        (screenWidth started_client) stale_position = None
   \<and> performClick sample_externals stale_position started_client =
       (Pending 2,
        started_client
          \<lparr>messageId := 2, wait := [2 \<mapsto> In_performClick stale_position],
           effects := effects started_client @ [Ws_send ''request-wda:screen-width'']\<rparr>)
   \<and> performClick sample_externals stale_position
        (setScreenInfo portrait (new_client ''device'')) =
       (Rejected No_session, setScreenInfo portrait (new_client ''device''))"
  by (simp add: op_defs sample_defs truthy_def calculatePhysicalPoint_def Size_equals_def
      js_eq_def)

text \<open>
  Claim C6, amended. \<^verbatim>\<open>performClick\<close> and \<^verbatim>\<open>performScroll\<close> do nothing at all (no
  frame written or queued, no error, the state as it was) whenever no screen descriptor
  has been set, and whenever the screen width is already known and the transform yields
  no point for one of the positions supplied.
\<close>

theorem perform_is_noop_without_screen_or_point:
  "(screenInfo s = None \<longrightarrow>
      performClick E position s = (Fulfilled None, s)
      \<and> performScroll E from to s = (Fulfilled None, s))
   \<and> (screenInfo s = Some si \<and> truthy (screenWidth s) \<longrightarrow>
        (calculatePhysicalPoint (Position_rotate E) si (screenWidth s) position = None \<longrightarrow>
           performClick E position s = (Fulfilled None, s))
        \<and> (calculatePhysicalPoint (Position_rotate E) si (screenWidth s) from = None
             \<or> calculatePhysicalPoint (Position_rotate E) si (screenWidth s) to = None \<longrightarrow>
           performScroll E from to s = (Fulfilled None, s)))"
  by (auto simp: performClick_def performScroll_def performClick_resume_def
        performScroll_resume_def split: option.splits)

text \<open>
  Before any screen descriptor is set a click and a scroll do nothing; with the portrait
  descriptor and a known width of 360, a click at the stale position, and a scroll from the
  fresh position to the stale one, do nothing either.
\<close>

theorem perform_is_noop_without_screen_or_point_witness:
  "screenInfo (new_client ''device'') = None
   \<and> performClick sample_externals fresh_position (new_client ''device'') =
       (Fulfilled None, new_client ''device'')
   \<and> performScroll sample_externals fresh_position fresh_position (new_client ''device'') =
       (Fulfilled None, new_client ''device'')
   \<and> screenInfo (started_client\<lparr>screenWidth := Fin 360\<rparr>) = Some portrait
   \<and> truthy (screenWidth (started_client\<lparr>screenWidth := Fin 360\<rparr>))
   \<and> calculatePhysicalPoint (Position_rotate sample_externals) portrait (Fin 360)
        stale_position = None
   \<and> performClick sample_externals stale_position (started_client\<lparr>screenWidth := Fin 360\<rparr>) =
       (Fulfilled None, started_client\<lparr>screenWidth := Fin 360\<rparr>)
   \<and> performScroll sample_externals fresh_position stale_position
        (started_client\<lparr>screenWidth := Fin 360\<rparr>) =
       (Fulfilled None, started_client\<lparr>screenWidth := Fin 360\<rparr>)"
proof -
  have none: "screenInfo (new_client ''device'') = None"
    by (simp add: new_client_def openNewConnection_def perform_def)
  have some: "screenInfo (started_client\<lparr>screenWidth := Fin 360\<rparr>) = Some portrait"
    by (simp add: started_client_def)
  have known: "truthy (screenWidth (started_client\<lparr>screenWidth := Fin 360\<rparr>))"
    by (simp add: truthy_def)
  have stale:
    "calculatePhysicalPoint (Position_rotate sample_externals) portrait
       (screenWidth (started_client\<lparr>screenWidth := Fin 360\<rparr>)) stale_position = None"
    by (simp add: calculatePhysicalPoint_def Size_equals_def js_eq_def sample_defs)
  from stale have stale': 
    "calculatePhysicalPoint (Position_rotate sample_externals) portrait (Fin 360)
       stale_position = None"
    by simp
  show ?thesis
    using perform_is_noop_without_screen_or_point
            [of "new_client ''device''" sample_externals fresh_position fresh_position
                fresh_position]
          perform_is_noop_without_screen_or_point
            [of "started_client\<lparr>screenWidth := Fin 360\<rparr>" sample_externals stale_position
                fresh_position stale_position portrait]
          none some known stale stale'
    by blast
qed

section \<open>Stopping\<close>

text \<open>
  Claim C7, as stated, fails. A new client is still connecting when \<^verbatim>\<open>runWebDriverAgent\<close>
  is called, so the frame is queued. \<^verbatim>\<open>stop\<close> closes the socket only when it is open and
  so leaves the connecting one alone. When that socket opens, the client being stopped,
  \<^verbatim>\<open>onSocketOpen\<close> writes the queued frame; and the frame of a second call made after
  that is written at once, not queued.
\<close>

theorem stop_while_connecting_counterexample:
  "run sample_externals [Call_runWebDriverAgent, Call_stop, Event_open, Call_runWebDriverAgent]
     (new_client ''device'') =
   Some \<lparr>screenInfo = None, screenWidth = Fin 0, udid = ''device'', stopped = True,
         commands = [], hasSession = False, messageId = 2,
         wait = [1 \<mapsto> In_runWebDriverAgent, 2 \<mapsto> In_runWebDriverAgent],
         ws = Some OPEN, timers = 0, resolved = [],
         effects = [New_connection, Emit_connected True, Ws_send ''run-wda'', Ws_send ''run-wda'']\<rparr>"
  by (simp add: op_defs onSocketOpen_open sample_defs)

text \<open>
  Claim C7, amended. \<^verbatim>\<open>stop\<close> is idempotent: a second call changes nothing and makes no
  further close attempt. After \<^verbatim>\<open>stop\<close>, whatever calls and events follow, the client
  stays stopped and no reconnect is scheduled. And if, when \<^verbatim>\<open>stop\<close> is first called, no
  connection attempt is under way (the socket is not connecting and no reconnect timer is
  set), then no frame is written to the socket ever after and \<^verbatim>\<open>sendCommand\<close> appends
  to the queue.
\<close>

theorem stop_is_final_when_no_connection_is_under_way:
  "stop (stop s) = stop s
   \<and> close_attempts (effects (stop (stop s))) = close_attempts (effects (stop s))
   \<and> (\<exists>s1. run E as (stop s) = Some s1
          \<and> stopped s1
          \<and> reconnects_scheduled (effects s1) = reconnects_scheduled (effects (stop s))
          \<and> (\<not> stopped s \<and> timers s = 0 \<and> ws s \<noteq> Some CONNECTING \<longrightarrow>
               frames_sent (effects s1) = frames_sent (effects (stop s))
               \<and> sendCommand str s1 = s1\<lparr>commands := commands s1 @ [str]\<rparr>))"
proof -
  obtain s1 where r: "run E as (stop s) = Some s1" using run_total by blast
  note a = run_stopped [OF r stopped_stop]
  have b: "frames_sent (effects s1) = frames_sent (effects (stop s))
           \<and> sendCommand str s1 = s1\<lparr>commands := commands s1 @ [str]\<rparr>"
    if "\<not> stopped s" "timers s = 0" "ws s \<noteq> Some CONNECTING"
    using run_halted [OF r halted_stop [OF that]] by (simp add: halted_def sendCommand_def)
  show ?thesis using r a b by (simp add: stop_twice)
qed

text \<open>
  The sample client, its socket open, is stopped; a button is pressed, the socket closes,
  and a timer and an open event find nothing to act on. The only frame ever written is the
  one from before the stop, the button's frame stays in the queue, and the one close
  attempt is the first stop's.
\<close>

theorem stop_is_final_when_no_connection_is_under_way_witness:
  "\<not> stopped started_client \<and> timers started_client = 0
   \<and> ws started_client \<noteq> Some CONNECTING
   \<and> stop (stop started_client) = stop started_client
   \<and> close_attempts (effects (stop (stop started_client))) = 1
   \<and> (\<exists>s1. run sample_externals
              [Call_pressButton ''home'', Event_close ''bye'', Event_timer, Event_open]
              (stop started_client) = Some s1
          \<and> stopped s1
          \<and> reconnects_scheduled (effects s1) = 0
          \<and> frames_sent (effects s1) = [''run-wda'']
          \<and> commands s1 = [''request-wda:press-button'']
          \<and> commands (sendCommand ''next'' s1) = [''request-wda:press-button'', ''next''])"
proof -
  have before: "\<not> stopped started_client \<and> timers started_client = 0
      \<and> ws started_client \<noteq> Some CONNECTING"
    by (simp add: started_client_def)
  have twice: "close_attempts (effects (stop (stop started_client))) = 1"
    by (simp add: stop_def perform_def started_client_def)
  have after:
    "\<exists>s1. run sample_externals
             [Call_pressButton ''home'', Event_close ''bye'', Event_timer, Event_open]
             (stop started_client) = Some s1
         \<and> stopped s1
         \<and> reconnects_scheduled (effects s1) = 0
         \<and> frames_sent (effects s1) = [''run-wda'']
         \<and> commands s1 = [''request-wda:press-button'']
         \<and> commands (sendCommand ''next'' s1) = [''request-wda:press-button'', ''next'']"
    by (simp add: op_defs onSocketOpen_open sample_defs)
  show ?thesis
    using stop_is_final_when_no_connection_is_under_way
            [of started_client sample_externals
                "[Call_pressButton ''home'', Event_close ''bye'', Event_timer, Event_open]"
                "''next''"]
          before twice after
    by blast
qed

end
